theory Spec2Isabelle
  imports Main
begin

section \<open>JavaScript values\<close>

text \<open>
  The component state \<open>account\<close> is declared \<open>string | null\<close>, but \<open>accounts[0]\<close> of an
  empty array is \<open>undefined\<close> at run time, so the three kinds of value are kept apart.
  Thrown values are \<open>Error\<close> objects with their message.
\<close>

datatype js_value = JNull | JUndefined | JString string

datatype js_error = Error string

text \<open>Truthiness as \<open>account && ...\<close> and \<open>account ? ... : ...\<close> test it: \<open>null\<close>,
  \<open>undefined\<close> and the empty string are falsy.\<close>

fun truthy :: "js_value \<Rightarrow> bool" where
  "truthy JNull = False"
| "truthy JUndefined = False"
| "truthy (JString s) = (s \<noteq> [])"

text \<open>\<open>accounts[0]\<close>: reading index 0 of an empty array gives \<open>undefined\<close>, it does not throw.\<close>

definition first_element :: "string list \<Rightarrow> js_value" where
  "first_element accounts = (case accounts of [] \<Rightarrow> JUndefined | a # _ \<Rightarrow> JString a)"

text \<open>What React prints for \<open>{account}\<close>: nothing for \<open>null\<close> and \<open>undefined\<close>.\<close>

fun jsx_text :: "js_value \<Rightarrow> string" where
  "jsx_text JNull = []"
| "jsx_text JUndefined = []"
| "jsx_text (JString s) = s"

section \<open>Module top level (App.tsx lines 6 to 19)\<close>

text \<open>
  \<open>process.env\<close> is a map from variable names to strings; a variable that is not set reads
  as \<open>undefined\<close>. \<open>!process.env.REACT_APP_MAGIC_API_KEY\<close> holds for \<open>undefined\<close> and for
  the empty string. The steps the module performs are recorded in order, together with
  the error thrown, if any.
\<close>

type_synonym process_env = "string \<rightharpoonup> string"

datatype startup_step =
    NewMagic string bool   \<comment> \<open>\<open>new Magic(key, {useStorageCache: ...})\<close>\<close>
  | NewBrowserProvider     \<comment> \<open>\<open>new BrowserProvider(magic.rpcProvider)\<close>\<close>
  | DefineApp              \<comment> \<open>the component \<open>App\<close> is defined and exported\<close>

definition module_top_level :: "process_env \<Rightarrow> startup_step list \<times> js_error option" where
  "module_top_level env =
     (case env ''REACT_APP_MAGIC_API_KEY'' of
        None \<Rightarrow> ([], Some (Error ''REACT_APP_MAGIC_API_KEY is required.''))
      | Some key \<Rightarrow>
          if key = [] then ([], Some (Error ''REACT_APP_MAGIC_API_KEY is required.''))
          else ([NewMagic key True, NewBrowserProvider, DefineApp], None))"

section \<open>The component and its environment\<close>

text \<open>
  Every call into the SDKs either resolves with a value or rejects with an error; the
  outcome of each call is given by the environment.

  Modelled from the spec: the type declarations of magic-sdk and ethers are not part of
  the repository. Following the interface of the specification, \<open>isLoggedIn() -> bool\<close>,
  \<open>getInfo() -> {publicAddress: string}\<close>, \<open>getSigner() -> {address: string}\<close>,
  \<open>connectWithUI() -> [address, ...]\<close>, \<open>logout() -> void\<close>, and
  \<open>onUserLoggedOut(callback) -> void\<close> stores the callback and returns.
\<close>

record user_info =
  publicAddress :: string

record signer =
  address :: string

record sdk =
  user_isLoggedIn :: "js_error + bool"
  user_getInfo :: "js_error + user_info"
  provider_getSigner :: "js_error + signer"
  wallet_connectWithUI :: "js_error + string list"
  user_logout :: "js_error + unit"

datatype sdk_call = IsLoggedIn | GetInfo | GetSigner | ConnectWithUI | OnUserLoggedOut | Logout

text \<open>
  Everything observable that happens during a flow, in order: calls into the SDKs, calls of
  the two state setters (what a spy on the setters would record), \<open>console.error\<close>, and
  the run of the effect's cleanup function.
\<close>

datatype event =
    Call sdk_call
  | SetAccount js_value
  | SetLoading bool
  | ConsoleError string js_error
  | Cleanup

text \<open>
  The two \<open>useState\<close> cells, the variable \<open>isMounted\<close> of the effect's closure, and the
  events so far.
\<close>

record world =
  account :: js_value
  loading :: bool
  isMounted :: bool
  events :: "event list"

definition emit :: "event \<Rightarrow> world \<Rightarrow> world" where
  "emit e w = w\<lparr>events := events w @ [e]\<rparr>"

definition call :: "sdk_call \<Rightarrow> world \<Rightarrow> world" where
  "call c w = emit (Call c) w"

definition setAccount :: "js_value \<Rightarrow> world \<Rightarrow> world" where
  "setAccount v w = emit (SetAccount v) (w\<lparr>account := v\<rparr>)"

definition setLoading :: "bool \<Rightarrow> world \<Rightarrow> world" where
  "setLoading b w = emit (SetLoading b) (w\<lparr>loading := b\<rparr>)"

definition console_error :: "string \<Rightarrow> js_error \<Rightarrow> world \<Rightarrow> world" where
  "console_error msg e w = emit (ConsoleError msg e) w"

text \<open>The cleanup function returned by the effect (lines 107 to 109).\<close>

definition cleanup :: "world \<Rightarrow> world" where
  "cleanup w = emit Cleanup (w\<lparr>isMounted := False\<rparr>)"

text \<open>
  An \<open>await\<close> gives control back to the event loop, and the component may be unmounted
  while the flow waits. \<open>unmount_at = Some k\<close> says that the cleanup function runs while the
  flow is suspended at its \<open>k\<close>-th \<open>await\<close> (counted from 1); \<open>None\<close>, or a \<open>k\<close> the flow
  never reaches, that it does not run before the flow has finished.
\<close>

definition suspend :: "nat option \<Rightarrow> nat \<Rightarrow> world \<Rightarrow> world" where
  "suspend unmount_at k w = (if unmount_at = Some k then cleanup w else w)"

text \<open>The state of a freshly mounted component when the effect calls
  \<open>checkLoginStatus()\<close>: \<open>useState(null)\<close>, \<open>useState(true)\<close>, \<open>let isMounted = true\<close>.\<close>

definition mounted :: world where
  "mounted = \<lparr>account = JNull, loading = True, isMounted = True, events = []\<rparr>"

subsection \<open>checkLoginStatus (lines 69 to 101)\<close>

definition catch_block :: "js_error \<Rightarrow> world \<Rightarrow> world" where
  "catch_block e w = console_error ''Failed to check login status'' e w"

definition finally_block :: "world \<Rightarrow> world" where
  "finally_block w = (if isMounted w then setLoading False w else w)"

definition checkLoginStatus :: "sdk \<Rightarrow> nat option \<Rightarrow> world \<Rightarrow> world" where
  "checkLoginStatus s unmount_at w =
     (let w1 = suspend unmount_at 1 (call IsLoggedIn w) in
      case user_isLoggedIn s of
        Inl e \<Rightarrow> finally_block (catch_block e w1)
      | Inr isLoggedIn \<Rightarrow>
          if isLoggedIn then
            (let w2 = suspend unmount_at 2 (call GetInfo w1) in
             case user_getInfo s of
               Inl e \<Rightarrow> finally_block (catch_block e w2)
             | Inr user \<Rightarrow>
                 (let w3 = suspend unmount_at 3 (call GetSigner w2) in
                  case provider_getSigner s of
                    Inl e \<Rightarrow> finally_block (catch_block e w3)
                  | Inr signer \<Rightarrow>
                      if publicAddress user \<noteq> address signer
                      then finally_block
                             (catch_block (Error ''User address does not match signer address'') w3)
                      else finally_block
                             (if isMounted w3 then setAccount (JString (publicAddress user)) w3
                              else w3)))
          else finally_block w1)"


subsection \<open>connectWallet (lines 29 to 39)\<close>

definition connectWallet :: "sdk \<Rightarrow> nat option \<Rightarrow> world \<Rightarrow> world" where
  "connectWallet s unmount_at w =
     (let w1 = suspend unmount_at 1 (call ConnectWithUI w) in
      case wallet_connectWithUI s of
        Inl e \<Rightarrow> console_error ''Connection failed'' e w1
      | Inr accounts \<Rightarrow> setAccount (first_element accounts) w1)"

subsection \<open>logout (lines 42 to 61)\<close>

text \<open>The function handed to \<open>magic.user.onUserLoggedOut\<close> (lines 45 to 50); the SDK decides
  when it is called and with which argument.\<close>

definition onUserLoggedOut_callback :: "bool \<Rightarrow> world \<Rightarrow> world" where
  "onUserLoggedOut_callback isLoggedOut w = (if isLoggedOut then setAccount JNull w else w)"

definition logout :: "sdk \<Rightarrow> nat option \<Rightarrow> world \<Rightarrow> world" where
  "logout s unmount_at w =
     (let w1 = suspend unmount_at 1 (call Logout (call OnUserLoggedOut w)) in
      case user_logout s of
        Inl e \<Rightarrow> console_error ''Logout failed'' e w1
      | Inr _ \<Rightarrow> w1)"

subsection \<open>Rendering (lines 112 to 134)\<close>

datatype main_content = Caricamento | AccountAddress string | ConnettiWallet

record view =
  disconnetti :: bool          \<comment> \<open>the button "Disconetti" of the header\<close>
  main_content :: main_content

definition render :: "world \<Rightarrow> view" where
  "render w =
     \<lparr>disconnetti = truthy (account w),
      main_content =
        (if loading w then Caricamento
         else if truthy (account w) then AccountAddress (jsx_text (account w))
         else ConnettiWallet)\<rparr>"

section \<open>Observations on runs\<close>

fun is_setter :: "event \<Rightarrow> bool" where
  "is_setter (SetAccount _) = True"
| "is_setter (SetLoading _) = True"
| "is_setter _ = False"

text \<open>The calls of \<open>setAccount\<close> and \<open>setLoading\<close> among the events, and the calls into
  the SDKs.\<close>

definition setter_calls :: "event list \<Rightarrow> event list" where
  "setter_calls es = filter is_setter es"

fun is_call :: "event \<Rightarrow> bool" where
  "is_call (Call _) = True"
| "is_call _ = False"

definition sdk_calls :: "event list \<Rightarrow> event list" where
  "sdk_calls es = filter is_call es"

text \<open>The events that follow the first run of the cleanup function (none if it never
  runs).\<close>

definition after_teardown :: "event list \<Rightarrow> event list" where
  "after_teardown es = drop 1 (dropWhile (\<lambda>e. e \<noteq> Cleanup) es)"

text \<open>Whether the cleanup function runs while a flow that goes through \<open>n\<close> awaits is
  suspended.\<close>

definition torn_down_during :: "nat option \<Rightarrow> nat \<Rightarrow> bool" where
  "torn_down_during unmount_at n =
     (case unmount_at of None \<Rightarrow> False | Some k \<Rightarrow> 1 \<le> k \<and> k \<le> n)"

text \<open>
  The three states as the specification names them, following its words and not the
  code: \<open>Loading\<close> while \<open>loading\<close> is true; afterwards \<open>Connected\<close> when an account is
  present and \<open>Disconnected\<close> when there is none.
\<close>

datatype ui_state = Loading | Connected | Disconnected

definition spec_ui_state :: "world \<Rightarrow> ui_state" where
  "spec_ui_state w =
     (if loading w then Loading
      else case account w of JString _ \<Rightarrow> Connected | _ \<Rightarrow> Disconnected)"

subsection \<open>Concrete environments and states\<close>

text \<open>A session whose claimed address differs from the signer's address in case only.\<close>

definition sdk_mismatch :: sdk where
  "sdk_mismatch =
     \<lparr>user_isLoggedIn = Inr True,
      user_getInfo = Inr \<lparr>publicAddress = ''0xabc''\<rparr>,
      provider_getSigner = Inr \<lparr>address = ''0xABC''\<rparr>,
      wallet_connectWithUI = Inr [''0xDEF''],
      user_logout = Inr ()\<rparr>"

text \<open>A session whose claimed address is the signer's address.\<close>

definition sdk_match :: sdk where
  "sdk_match =
     \<lparr>user_isLoggedIn = Inr True,
      user_getInfo = Inr \<lparr>publicAddress = ''0xABC''\<rparr>,
      provider_getSigner = Inr \<lparr>address = ''0xABC''\<rparr>,
      wallet_connectWithUI = Inr [''0xDEF''],
      user_logout = Inr ()\<rparr>"

text \<open>No session; connecting succeeds with one address.\<close>

definition sdk_no_session :: sdk where
  "sdk_no_session =
     \<lparr>user_isLoggedIn = Inr False,
      user_getInfo = Inl (Error ''no session''),
      provider_getSigner = Inl (Error ''no session''),
      wallet_connectWithUI = Inr [''0xDEF''],
      user_logout = Inr ()\<rparr>"

text \<open>No session; the user closes the connect dialogue, and logging out fails.\<close>

definition sdk_failing :: sdk where
  "sdk_failing =
     \<lparr>user_isLoggedIn = Inr False,
      user_getInfo = Inl (Error ''no session''),
      provider_getSigner = Inl (Error ''no session''),
      wallet_connectWithUI = Inl (Error ''User canceled''),
      user_logout = Inl (Error ''Network error'')\<rparr>"

text \<open>No session; the connect dialogue resolves with no address at all.\<close>

definition sdk_no_accounts :: sdk where
  "sdk_no_accounts =
     \<lparr>user_isLoggedIn = Inr False,
      user_getInfo = Inl (Error ''no session''),
      provider_getSigner = Inl (Error ''no session''),
      wallet_connectWithUI = Inr [],
      user_logout = Inr ()\<rparr>"

definition disconnected :: world where
  "disconnected = \<lparr>account = JNull, loading = False, isMounted = True, events = []\<rparr>"

definition connected :: world where
  "connected = \<lparr>account = JString ''0xABC'', loading = False, isMounted = True, events = []\<rparr>"

text \<open>The state of a mounted component right after \<open>setAccount(user.publicAddress)\<close>
  (line 89), before the finally block has called \<open>setLoading(false)\<close>.\<close>

definition loading_with_account :: world where
  "loading_with_account = setAccount (JString ''0xABC'') mounted"


section \<open>Basic facts about the primitive operations\<close>

lemmas prim_defs =
  catch_block_def finally_block_def suspend_def cleanup_def console_error_def
  setAccount_def setLoading_def call_def emit_def

section \<open>Startup\<close>

text \<open>
  C8. Whenever the variable \<open>REACT_APP_MAGIC_API_KEY\<close> is absent from the environment, the
  module throws the error "REACT_APP_MAGIC_API_KEY is required." and has performed no
  step before: neither client is constructed and the component is never defined, so
  nothing can be rendered.
\<close>

theorem missing_api_key_is_fatal:
  "env ''REACT_APP_MAGIC_API_KEY'' = None \<Longrightarrow>
   module_top_level env = ([], Some (Error ''REACT_APP_MAGIC_API_KEY is required.''))"
  by (simp add: module_top_level_def)

theorem missing_api_key_is_fatal_witness:
  "(Map.empty :: process_env) ''REACT_APP_MAGIC_API_KEY'' = None \<and>
   module_top_level Map.empty = ([], Some (Error ''REACT_APP_MAGIC_API_KEY is required.''))"
  using missing_api_key_is_fatal [of Map.empty] by simp

lemma unmount_cases:
  obtains
    (first) "unmount_at = Some 1" "torn_down_during unmount_at 3"
  | (second) "unmount_at = Some 2" "torn_down_during unmount_at 3"
  | (third) "unmount_at = Some 3" "torn_down_during unmount_at 3"
  | (never) "unmount_at \<noteq> Some 1" "unmount_at \<noteq> Some 2" "unmount_at \<noteq> Some 3"
      "\<not> torn_down_during unmount_at 3"
proof (cases unmount_at)
  case None
  then show ?thesis using never by (simp add: torn_down_during_def)
next
  case (Some k)
  consider "k = 1" | "k = 2" | "k = 3" | "k = 0 \<or> 3 < k" by linarith
  then show ?thesis
  proof cases
    case 1 with Some show ?thesis using first by (simp add: torn_down_during_def)
  next
    case 2 with Some show ?thesis using second by (simp add: torn_down_during_def)
  next
    case 3 with Some show ?thesis using third by (simp add: torn_down_during_def)
  next
    case 4 with Some show ?thesis using never by (auto simp: torn_down_during_def)
  qed
qed

lemma torn_down_during_one: "torn_down_during unmount_at 1 = (unmount_at = Some 1)"
  by (cases unmount_at) (auto simp: torn_down_during_def)

section \<open>The session check\<close>

text \<open>
  C1 (as amended). For every run of \<open>checkLoginStatus\<close> at mount in which a session exists
  and the claimed address differs from the signer's address, \<open>account\<close> stays \<open>null\<close> and
  the error "User address does not match signer address" is caught and logged. The final
  \<open>loading\<close> is false exactly when the component was not unmounted while the flow was
  suspended; when it was, no setter is called and \<open>loading\<close> keeps its value.
\<close>

theorem session_mismatch_rejected:
  assumes "user_isLoggedIn s = Inr True"
    and "user_getInfo s = Inr user"
    and "provider_getSigner s = Inr sg"
    and "publicAddress user \<noteq> address sg"
  shows "account (checkLoginStatus s unmount_at mounted) = JNull \<and>
         loading (checkLoginStatus s unmount_at mounted) = torn_down_during unmount_at 3 \<and>
         ConsoleError ''Failed to check login status''
             (Error ''User address does not match signer address'')
           \<in> set (events (checkLoginStatus s unmount_at mounted)) \<and>
         setter_calls (events (checkLoginStatus s unmount_at mounted)) =
           (if torn_down_during unmount_at 3 then [] else [SetLoading False])"
  using assms
  by (cases unmount_at rule: unmount_cases)
     (simp_all add: checkLoginStatus_def prim_defs mounted_def Let_def setter_calls_def)

theorem session_mismatch_rejected_witness:
  "user_isLoggedIn sdk_mismatch = Inr True \<and>
   user_getInfo sdk_mismatch = Inr \<lparr>publicAddress = ''0xabc''\<rparr> \<and>
   provider_getSigner sdk_mismatch = Inr \<lparr>address = ''0xABC''\<rparr> \<and>
   ''0xabc'' \<noteq> ''0xABC'' \<and>
   account (checkLoginStatus sdk_mismatch None mounted) = JNull \<and>
   loading (checkLoginStatus sdk_mismatch None mounted) = False \<and>
   setter_calls (events (checkLoginStatus sdk_mismatch None mounted)) = [SetLoading False]"
  using session_mismatch_rejected
    [of sdk_mismatch "\<lparr>publicAddress = ''0xabc''\<rparr>" "\<lparr>address = ''0xABC''\<rparr>" None]
  by (simp add: sdk_mismatch_def torn_down_during_def)

text \<open>The claim as stated fails when the component is unmounted while the flow waits for
  the user record: the error is logged, but \<open>loading\<close> stays true.\<close>

theorem session_mismatch_torn_down:
  "\<not> (loading (checkLoginStatus sdk_mismatch (Some 2) mounted) = False \<and>
      account (checkLoginStatus sdk_mismatch (Some 2) mounted) = JNull)"
  by (simp add: checkLoginStatus_def prim_defs mounted_def Let_def sdk_mismatch_def)

text \<open>
  C2 (as amended). For every run of \<open>checkLoginStatus\<close> at mount in which a session exists
  and the claimed address equals the signer's address, and the component is not unmounted
  while the flow is suspended, the final state is \<open>loading = false\<close> and \<open>account\<close> equal
  to that address. When the component is unmounted during the flow, no setter is called:
  \<open>account\<close> stays \<open>null\<close> and \<open>loading\<close> stays true.
\<close>

theorem session_match_sets_account:
  assumes "user_isLoggedIn s = Inr True"
    and "user_getInfo s = Inr user"
    and "provider_getSigner s = Inr sg"
    and "publicAddress user = address sg"
  shows "account (checkLoginStatus s unmount_at mounted) =
           (if torn_down_during unmount_at 3 then JNull else JString (address sg)) \<and>
         loading (checkLoginStatus s unmount_at mounted) = torn_down_during unmount_at 3 \<and>
         setter_calls (events (checkLoginStatus s unmount_at mounted)) =
           (if torn_down_during unmount_at 3 then []
            else [SetAccount (JString (address sg)), SetLoading False])"
  using assms
  by (cases unmount_at rule: unmount_cases)
     (simp_all add: checkLoginStatus_def prim_defs mounted_def Let_def setter_calls_def)

theorem session_match_sets_account_witness:
  "user_isLoggedIn sdk_match = Inr True \<and>
   user_getInfo sdk_match = Inr \<lparr>publicAddress = ''0xABC''\<rparr> \<and>
   provider_getSigner sdk_match = Inr \<lparr>address = ''0xABC''\<rparr> \<and>
   account (checkLoginStatus sdk_match None mounted) = JString ''0xABC'' \<and>
   loading (checkLoginStatus sdk_match None mounted) = False \<and>
   setter_calls (events (checkLoginStatus sdk_match None mounted)) =
     [SetAccount (JString ''0xABC''), SetLoading False]"
  using session_match_sets_account
    [of sdk_match "\<lparr>publicAddress = ''0xABC''\<rparr>" "\<lparr>address = ''0xABC''\<rparr>" None]
  by (simp add: sdk_match_def torn_down_during_def)

text \<open>The claim as stated fails when the component is unmounted while the flow waits for
  the signer: the addresses agree, but neither setter is called.\<close>

theorem session_match_torn_down:
  "\<not> (loading (checkLoginStatus sdk_match (Some 3) mounted) = False \<and>
      account (checkLoginStatus sdk_match (Some 3) mounted) = JString ''0xABC'')"
  by (simp add: checkLoginStatus_def prim_defs mounted_def Let_def sdk_match_def)

text \<open>
  C3 (as amended). For every run of \<open>checkLoginStatus\<close> at mount in which the auth client
  reports no session, \<open>isLoggedIn\<close> is the only call made into the SDKs and \<open>account\<close>
  stays \<open>null\<close>. The final \<open>loading\<close> is false exactly when the component was not unmounted
  while the flow waited for that call; when it was, \<open>loading\<close> stays true.
\<close>

theorem no_session_stays_logged_out:
  assumes "user_isLoggedIn s = Inr False"
  shows "account (checkLoginStatus s unmount_at mounted) = JNull \<and>
         loading (checkLoginStatus s unmount_at mounted) = torn_down_during unmount_at 1 \<and>
         sdk_calls (events (checkLoginStatus s unmount_at mounted)) = [Call IsLoggedIn]"
  using assms
  by (cases "unmount_at = Some 1")
     (simp_all add: checkLoginStatus_def prim_defs mounted_def Let_def sdk_calls_def
        torn_down_during_one [simplified])

theorem no_session_stays_logged_out_witness:
  "user_isLoggedIn sdk_no_session = Inr False \<and>
   account (checkLoginStatus sdk_no_session None mounted) = JNull \<and>
   loading (checkLoginStatus sdk_no_session None mounted) = False \<and>
   sdk_calls (events (checkLoginStatus sdk_no_session None mounted)) = [Call IsLoggedIn]"
  using no_session_stays_logged_out [of sdk_no_session None]
  by (simp add: sdk_no_session_def torn_down_during_def)

text \<open>The claim as stated fails when the component is unmounted while the flow waits for
  \<open>isLoggedIn\<close>: \<open>loading\<close> stays true.\<close>

theorem no_session_torn_down:
  "\<not> (loading (checkLoginStatus sdk_no_session (Some 1) mounted) = False \<and>
      account (checkLoginStatus sdk_no_session (Some 1) mounted) = JNull)"
  by (simp add: checkLoginStatus_def prim_defs mounted_def Let_def sdk_no_session_def)


section \<open>Teardown\<close>

text \<open>
  C5. In every run of \<open>checkLoginStatus\<close> at mount, no call of \<open>setAccount\<close> or
  \<open>setLoading\<close> follows the run of the cleanup function; and when the cleanup function has
  run during the flow, the flow calls no setter at all, so the state is what it was at
  mount.
\<close>

theorem teardown_discards_session_check:
  "setter_calls (after_teardown (events (checkLoginStatus s unmount_at mounted))) = [] \<and>
   (Cleanup \<in> set (events (checkLoginStatus s unmount_at mounted)) \<longrightarrow>
      setter_calls (events (checkLoginStatus s unmount_at mounted)) = [] \<and>
      account (checkLoginStatus s unmount_at mounted) = JNull \<and>
      loading (checkLoginStatus s unmount_at mounted) = True)"
  by (cases unmount_at rule: unmount_cases)
     (simp_all add: checkLoginStatus_def prim_defs mounted_def Let_def setter_calls_def
        after_teardown_def split: sum.splits)

theorem teardown_discards_session_check_witness:
  "Cleanup \<in> set (events (checkLoginStatus sdk_match (Some 2) mounted)) \<and>
   setter_calls (after_teardown (events (checkLoginStatus sdk_match (Some 2) mounted))) = [] \<and>
   setter_calls (events (checkLoginStatus sdk_match (Some 2) mounted)) = [] \<and>
   account (checkLoginStatus sdk_match (Some 2) mounted) = JNull \<and>
   loading (checkLoginStatus sdk_match (Some 2) mounted) = True"
proof -
  have "Cleanup \<in> set (events (checkLoginStatus sdk_match (Some 2) mounted))"
    by (simp add: checkLoginStatus_def prim_defs mounted_def Let_def sdk_match_def)
  then show ?thesis
    using teardown_discards_session_check [of sdk_match "Some 2"] by simp
qed








section \<open>Connect and logout\<close>

text \<open>
  C7. When the connect flow resolves with a list of addresses, \<open>connectWallet\<close> sets
  \<open>account\<close> to \<open>accounts[0]\<close>, the first address of a list that has one, and leaves
  \<open>loading\<close> alone. When the flow fails with
  any error, the error is logged with "Connection failed", no setter is called, \<open>account\<close>
  and \<open>loading\<close> are unchanged, and the rendered view is the one rendered before.
\<close>

theorem connect_sets_first_address:
  "(wallet_connectWithUI s = Inr accounts \<longrightarrow>
      account (connectWallet s unmount_at w) = first_element accounts \<and>
      loading (connectWallet s unmount_at w) = loading w) \<and>
   first_element (a # rest) = JString a \<and>
   (wallet_connectWithUI s = Inl e \<longrightarrow>
      account (connectWallet s unmount_at w) = account w \<and>
      loading (connectWallet s unmount_at w) = loading w \<and>
      last (events (connectWallet s unmount_at w)) = ConsoleError ''Connection failed'' e \<and>
      setter_calls (events (connectWallet s unmount_at w)) = setter_calls (events w) \<and>
      render (connectWallet s unmount_at w) = render w)"
  by (simp add: connectWallet_def prim_defs Let_def setter_calls_def render_def
      first_element_def)

theorem connect_sets_first_address_witness:
  "wallet_connectWithUI sdk_no_session = Inr [''0xDEF''] \<and>
   account (connectWallet sdk_no_session None disconnected) = JString ''0xDEF'' \<and>
   loading (connectWallet sdk_no_session None disconnected) = False \<and>
   wallet_connectWithUI sdk_failing = Inl (Error ''User canceled'') \<and>
   account (connectWallet sdk_failing None disconnected) = JNull \<and>
   loading (connectWallet sdk_failing None disconnected) = False \<and>
   last (events (connectWallet sdk_failing None disconnected)) =
     ConsoleError ''Connection failed'' (Error ''User canceled'') \<and>
   setter_calls (events (connectWallet sdk_failing None disconnected)) = [] \<and>
   render (connectWallet sdk_failing None disconnected) = render disconnected"
  using connect_sets_first_address [of sdk_no_session "[''0xDEF'']" None disconnected "''0xDEF''" "[]"]
    connect_sets_first_address
      [of sdk_failing _ None disconnected _ _ "Error ''User canceled''"]
  by (simp add: sdk_no_session_def sdk_failing_def disconnected_def setter_calls_def)

text \<open>
  C10. When the connect flow resolves with an empty list, \<open>connectWallet\<close> still calls
  \<open>setAccount\<close>, with \<open>accounts[0]\<close>, which is \<open>undefined\<close>; \<open>account\<close> is then
  \<open>undefined\<close>, and a component that was not loading renders the Disconnected view: the
  button "Connetti Wallet" and no button "Disconetti".
\<close>

theorem connect_empty_list_gives_undefined:
  assumes "wallet_connectWithUI s = Inr []"
    and "\<not> loading w"
  shows "account (connectWallet s unmount_at w) = JUndefined \<and>
         last (events (connectWallet s unmount_at w)) = SetAccount JUndefined \<and>
         render (connectWallet s unmount_at w) =
           \<lparr>disconnetti = False, main_content = ConnettiWallet\<rparr> \<and>
         spec_ui_state (connectWallet s unmount_at w) = Disconnected"
  using assms
  by (simp add: connectWallet_def prim_defs Let_def render_def first_element_def
      spec_ui_state_def)

theorem connect_empty_list_gives_undefined_witness:
  "wallet_connectWithUI sdk_no_accounts = Inr [] \<and>
   \<not> loading disconnected \<and>
   account (connectWallet sdk_no_accounts None disconnected) = JUndefined \<and>
   last (events (connectWallet sdk_no_accounts None disconnected)) = SetAccount JUndefined \<and>
   render (connectWallet sdk_no_accounts None disconnected) =
     \<lparr>disconnetti = False, main_content = ConnettiWallet\<rparr> \<and>
   spec_ui_state (connectWallet sdk_no_accounts None disconnected) = Disconnected"
  using connect_empty_list_gives_undefined [of sdk_no_accounts disconnected None]
  by (simp add: sdk_no_accounts_def disconnected_def)

text \<open>
  C6 (as amended). \<open>logout\<close> first registers a callback with the auth client and then
  invokes the SDK's logout call, and itself changes neither \<open>account\<close> nor \<open>loading\<close>; if
  the logout call fails, the error is logged with "Logout failed". The registered callback
  sets \<open>account\<close> to \<open>null\<close> when it is fired with \<open>true\<close>, and changes nothing when it is
  fired with \<open>false\<close>.
\<close>

theorem logout_registers_then_calls:
  "sdk_calls (events (logout s unmount_at w)) =
     sdk_calls (events w) @ [Call OnUserLoggedOut, Call Logout] \<and>
   account (logout s unmount_at w) = account w \<and>
   loading (logout s unmount_at w) = loading w \<and>
   setter_calls (events (logout s unmount_at w)) = setter_calls (events w) \<and>
   (user_logout s = Inl e \<longrightarrow>
      last (events (logout s unmount_at w)) = ConsoleError ''Logout failed'' e) \<and>
   account (onUserLoggedOut_callback True w) = JNull \<and>
   onUserLoggedOut_callback False w = w"
  by (simp add: logout_def onUserLoggedOut_callback_def prim_defs Let_def sdk_calls_def
      setter_calls_def split: sum.splits)

theorem logout_registers_then_calls_witness:
  "user_logout sdk_failing = Inl (Error ''Network error'') \<and>
   sdk_calls (events (logout sdk_failing None connected)) =
     [Call OnUserLoggedOut, Call Logout] \<and>
   account (logout sdk_failing None connected) = JString ''0xABC'' \<and>
   loading (logout sdk_failing None connected) = False \<and>
   last (events (logout sdk_failing None connected)) =
     ConsoleError ''Logout failed'' (Error ''Network error'') \<and>
   account (onUserLoggedOut_callback True connected) = JNull"
  using logout_registers_then_calls [of sdk_failing None connected "Error ''Network error''"]
  by (simp add: sdk_failing_def connected_def sdk_calls_def)

text \<open>The claim as stated fails when the SDK fires the callback with \<open>false\<close>: the account
  is not reset.\<close>

theorem logout_callback_false_keeps_account:
  "account (onUserLoggedOut_callback False connected) \<noteq> JNull"
  by (simp add: onUserLoggedOut_callback_def connected_def)

section \<open>Rendering\<close>

text \<open>
  C9 (as amended). For every state, the main area shows exactly one of three things: the
  loading indicator exactly in the Loading state; the account address exactly when
  \<open>loading\<close> is false and \<open>account\<close> is a non-empty string (the Connected state); the
  Connect action exactly when \<open>loading\<close> is false and \<open>account\<close> is \<open>null\<close>, \<open>undefined\<close> or
  the empty string. The Disconnect action of the header is visible exactly when \<open>account\<close>
  is a non-empty string, whatever \<open>loading\<close> is: in the Connected state, and also in the
  Loading state once \<open>account\<close> is set.
\<close>

theorem rendered_views:
  "(main_content (render w) = Caricamento) = (spec_ui_state w = Loading) \<and>
   (main_content (render w) = AccountAddress (jsx_text (account w))) =
     (\<not> loading w \<and> truthy (account w)) \<and>
   (main_content (render w) = ConnettiWallet) = (\<not> loading w \<and> \<not> truthy (account w)) \<and>
   disconnetti (render w) = truthy (account w) \<and>
   (\<not> loading w \<and> truthy (account w)) =
     (spec_ui_state w = Connected \<and> account w \<noteq> JString [])"
  by (cases "account w") (simp_all add: render_def spec_ui_state_def)

text \<open>The claim as stated fails in the state between \<open>setAccount(user.publicAddress)\<close> and
  \<open>setLoading(false)\<close>: the state is Loading, the loading indicator is shown, and so is
  the Disconnect action.\<close>

theorem disconnect_shown_while_loading:
  "spec_ui_state loading_with_account = Loading \<and>
   main_content (render loading_with_account) = Caricamento \<and>
   disconnetti (render loading_with_account)"
  by (simp add: render_def spec_ui_state_def loading_with_account_def setAccount_def emit_def
      mounted_def)

end
